theory Spec2Isabelle
  imports Complex_Main
begin

section \<open>JavaScript values that cross the model\<close>

text \<open>
  A JavaScript number is a finite value, one of the two infinities, or NaN. Finite
  values are read as reals: the model only compares numbers, and the comparisons of the
  source are exact on them.
\<close>

datatype number = Finite real | PosInf | NegInf | NaN

text \<open>The relational operator \<^verbatim>\<open>a >= b\<close>: false as soon as one side is NaN.\<close>

fun num_ge :: "number \<Rightarrow> number \<Rightarrow> bool" where
  "num_ge NaN _ = False"
| "num_ge _ NaN = False"
| "num_ge PosInf _ = True"
| "num_ge _ NegInf = True"
| "num_ge NegInf _ = False"
| "num_ge _ PosInf = False"
| "num_ge (Finite a) (Finite b) = (b \<le> a)"

text \<open>\<^verbatim>\<open>a < b\<close>, again false on NaN.\<close>

fun num_lt :: "number \<Rightarrow> number \<Rightarrow> bool" where
  "num_lt NaN _ = False"
| "num_lt _ NaN = False"
| "num_lt PosInf _ = False"
| "num_lt _ NegInf = False"
| "num_lt NegInf _ = True"
| "num_lt _ PosInf = True"
| "num_lt (Finite a) (Finite b) = (a < b)"

text \<open>
  The value \<^verbatim>\<open>response.json()\<close> resolves to. An object is the list of its own
  properties (a parsed object has each key once).
\<close>

datatype json =
    JNull
  | JBool bool
  | JNum number
  | JStr string
  | JArr "json list"
  | JObj "(string \<times> json) list"

text \<open>JavaScript truthiness, as \<^verbatim>\<open>||\<close>, \<^verbatim>\<open>&&\<close> and \<^verbatim>\<open>!\<close> test it.\<close>

fun truthy :: "json \<Rightarrow> bool" where
  "truthy JNull = False"
| "truthy (JBool b) = b"
| "truthy (JNum (Finite x)) = (x \<noteq> 0)"
| "truthy (JNum NaN) = False"
| "truthy (JNum _) = True"
| "truthy (JStr s) = (s \<noteq> [])"
| "truthy (JArr _) = True"
| "truthy (JObj _) = True"

text \<open>What a caught \<^verbatim>\<open>try\<close> block can have thrown.\<close>

datatype exn = TypeError | SyntaxError | FetchRejected

text \<open>
  Reading the property \<^verbatim>\<open>detail\<close> of a value: a TypeError on null, the property
  of an object (\<open>None\<close> is \<^verbatim>\<open>undefined\<close>), and \<^verbatim>\<open>undefined\<close> on every
  other value.
\<close>

fun get_detail :: "json \<Rightarrow> exn + json option" where
  "get_detail JNull = Inl TypeError"
| "get_detail (JObj kvs) = Inr (map_of kvs ''detail'')"
| "get_detail _ = Inr None"

text \<open>A non-negative integer inside a template literal: its decimal digits.\<close>

definition digit_char :: "nat \<Rightarrow> char" where
  "digit_char d = ''0123456789'' ! d"

fun string_of_nat :: "nat \<Rightarrow> string" where
  "string_of_nat n =
     (if n < 10 then [digit_char n]
      else string_of_nat (n div 10) @ [digit_char (n mod 10)])"

declare string_of_nat.simps [simp del]

section \<open>UploadForm.jsx\<close>

text \<open>The fields of a browser \<^verbatim>\<open>File\<close> that the source reads.\<close>

record js_file =
  ftype :: string
  fsize :: nat
  fname :: string

text \<open>The three state cells of \<^verbatim>\<open>UploadForm\<close>.\<close>

record upload_form =
  resumeFile :: "js_file option"
  jdFile :: "js_file option"
  sizeError :: "string option"

definition fresh_form :: upload_form where
  "fresh_form = \<lparr>resumeFile = None, jdFile = None, sizeError = None\<rparr>"

text \<open>
  \<^verbatim>\<open>const canSubmit = resumeFile && jdFile && !isLoading\<close>; a \<^verbatim>\<open>File\<close> is
  truthy and \<^verbatim>\<open>null\<close> is not, so the conjunction is truthy exactly as below.
\<close>

definition canSubmit :: "upload_form \<Rightarrow> bool \<Rightarrow> bool" where
  "canSubmit u isLoading = ((resumeFile u \<noteq> None \<and> jdFile u \<noteq> None) \<and> \<not> isLoading)"

definition showSizeToast :: "string \<Rightarrow> upload_form \<Rightarrow> upload_form" where
  "showSizeToast msg u = u\<lparr>sizeError := Some msg\<rparr>"

text \<open>The two \<^verbatim>\<open>Dropzone\<close> instances differ in the setter they are given.\<close>

datatype slot = ResumeSlot | JdSlot

fun onFileSelect :: "slot \<Rightarrow> js_file \<Rightarrow> upload_form \<Rightarrow> upload_form" where
  "onFileSelect ResumeSlot f u = u\<lparr>resumeFile := Some f\<rparr>"
| "onFileSelect JdSlot f u = u\<lparr>jdFile := Some f\<rparr>"

definition MAX_FILE_SIZE :: nat where
  "MAX_FILE_SIZE = 1048576"

text \<open>\<^verbatim>\<open>handleFile\<close> of a \<^verbatim>\<open>Dropzone\<close>; \<open>None\<close> is the missing \<^verbatim>\<open>files[0]\<close>.\<close>

fun handleFile :: "slot \<Rightarrow> js_file option \<Rightarrow> upload_form \<Rightarrow> upload_form" where
  "handleFile sl None u = u"
| "handleFile sl (Some f) u =
     (if ftype f \<noteq> ''application/pdf'' then u
      else if fsize f > MAX_FILE_SIZE then
        showSizeToast ''File is too large. Please upload a standard text-based PDF under 1MB.'' u
      else onFileSelect sl f u)"

text \<open>The file a slot holds.\<close>

fun slot_file :: "slot \<Rightarrow> upload_form \<Rightarrow> js_file option" where
  "slot_file ResumeSlot u = resumeFile u"
| "slot_file JdSlot u = jdFile u"

fun other :: "slot \<Rightarrow> slot" where
  "other ResumeSlot = JdSlot"
| "other JdSlot = ResumeSlot"

section \<open>App.jsx\<close>

datatype view = Idle | Upload | Loading | Results

datatype role = Recruiter | Applier

record toast =
  message :: json
  type :: string

text \<open>
  The state cells of \<^verbatim>\<open>App\<close> that the workflow uses (\<^verbatim>\<open>results\<close> starts as
  \<^verbatim>\<open>null\<close>, here \<open>JNull\<close>), the cells of the \<^verbatim>\<open>UploadForm\<close> it renders,
  whether an instance of that form is mounted, and the number of \<^verbatim>\<open>fetch\<close> calls
  that have not settled yet.
\<close>

record app =
  view :: view
  role :: "role option"
  results :: json
  toast :: "toast option"
  form :: upload_form
  formMounted :: bool
  pending :: nat

definition init :: app where
  "init = \<lparr>view = Idle, role = None, results = JNull, toast = None,
            form = fresh_form, formMounted = False, pending = 0\<rparr>"

text \<open>
  \<^verbatim>\<open>(view === "upload" || view === "loading") && <motion.div key="upload" exit=...>\<close>
  inside \<^verbatim>\<open><AnimatePresence mode="wait">\<close>: when the view becomes upload or loading
  and no instance of the form is mounted, one is mounted with its initial cells. When
  the view leaves these two, the instance stays mounted, with its cells, for the time
  of its exit animation; it is discarded when that animation ends (\<open>formExited\<close>),
  unless the view is upload or loading again by then, in which case the same instance,
  with its cells, is shown again.
\<close>

definition uploadFormShown :: "app \<Rightarrow> bool" where
  "uploadFormShown s = (view s = Upload \<or> view s = Loading)"

definition mountForm :: "app \<Rightarrow> app" where
  "mountForm s =
     (if uploadFormShown s \<and> \<not> formMounted s
      then s\<lparr>form := fresh_form, formMounted := True\<rparr> else s)"

definition formExited :: "app \<Rightarrow> app" where
  "formExited s =
     (if \<not> uploadFormShown s \<and> formMounted s
      then s\<lparr>form := fresh_form, formMounted := False\<rparr> else s)"

definition handleRoleSelect :: "role \<Rightarrow> app \<Rightarrow> app" where
  "handleRoleSelect selectedRole s = s\<lparr>role := Some selectedRole, view := Upload\<rparr>"

definition showToast :: "json \<Rightarrow> string \<Rightarrow> app \<Rightarrow> app" where
  "showToast msg ty s = s\<lparr>toast := Some \<lparr>message = msg, type = ty\<rparr>\<rparr>"

definition handleReset :: "app \<Rightarrow> app" where
  "handleReset s = s\<lparr>view := Idle, role := None, results := JNull\<rparr>"

text \<open>
  How the \<^verbatim>\<open>fetch\<close> of \<^verbatim>\<open>handleAnalyze\<close> settles: it rejects, or it resolves to
  a response with a status and a body; the body is \<open>None\<close> when \<^verbatim>\<open>response.json()\<close>
  rejects, and the parsed value otherwise.
\<close>

datatype fetch_result = NetworkError | Response nat "json option"

text \<open>\<^verbatim>\<open>response.ok\<close>: the status is in the range 200 to 299.\<close>

definition ok :: "nat \<Rightarrow> bool" where
  "ok status = (200 \<le> status \<and> status \<le> 299)"

text \<open>The right operand of \<^verbatim>\<open>||\<close> in \<^verbatim>\<open>handleAnalyze\<close>.\<close>

definition status_message :: "nat \<Rightarrow> string" where
  "status_message status =
     (if status = 415 then ''Invalid file type. Please upload PDF files only.''
      else if status = 422 then
        ''Could not read one of the PDFs. Please ensure they contain selectable text.''
      else ''Server error ('' @ string_of_nat status @ ''). Please try again.'')"

text \<open>\<^verbatim>\<open>a || b\<close>, where \<open>a\<close> may be \<^verbatim>\<open>undefined\<close> (\<open>None\<close>).\<close>

fun js_or :: "json option \<Rightarrow> json \<Rightarrow> json" where
  "js_or None b = b"
| "js_or (Some a) b = (if truthy a then a else b)"

text \<open>
  \<^verbatim>\<open>handleAnalyze\<close> up to its \<^verbatim>\<open>await fetch\<close>: the view becomes loading and one more
  request is in flight.
\<close>

definition handleAnalyze_begin :: "app \<Rightarrow> app" where
  "handleAnalyze_begin s = s\<lparr>view := Loading, pending := pending s + 1\<rparr>"

text \<open>
  The rest of the \<^verbatim>\<open>try\<close> block, once the fetch has settled: \<open>Inl\<close> is what the
  block throws. \<^verbatim>\<open>response.json().catch(() => ({}))\<close> replaces an unparseable error
  body by the empty object.
\<close>

fun handleAnalyze_try :: "fetch_result \<Rightarrow> app \<Rightarrow> exn + app" where
  "handleAnalyze_try NetworkError s = Inl FetchRejected"
| "handleAnalyze_try (Response status body) s =
     (if \<not> ok status then
        (let errorData = (case body of None \<Rightarrow> JObj [] | Some d \<Rightarrow> d) in
         case get_detail errorData of
           Inl e \<Rightarrow> Inl e
         | Inr detail \<Rightarrow>
             Inr ((showToast (js_or detail (JStr (status_message status))) ''error'' s)
                    \<lparr>view := Upload\<rparr>))
      else
        (case body of
           None \<Rightarrow> Inl SyntaxError
         | Some data \<Rightarrow> Inr (s\<lparr>results := data, view := Results\<rparr>)))"

text \<open>The \<^verbatim>\<open>try\<close> block with its \<^verbatim>\<open>catch\<close>: the continuation of \<^verbatim>\<open>handleAnalyze\<close>.\<close>

definition handleAnalyze_settle :: "fetch_result \<Rightarrow> app \<Rightarrow> app" where
  "handleAnalyze_settle fr s =
     (let s0 = s\<lparr>pending := pending s - 1\<rparr> in
      case handleAnalyze_try fr s0 of
        Inl err \<Rightarrow>
          (showToast
             (JStr ''Could not reach the server. Make sure the FastAPI backend is running.'')
             ''error'' s0)\<lparr>view := Upload\<rparr>
      | Inr s' \<Rightarrow> s')"

text \<open>\<^verbatim>\<open>handleAnalyze\<close> when nothing happens between the call and the response.\<close>

definition handleAnalyze :: "fetch_result \<Rightarrow> app \<Rightarrow> app" where
  "handleAnalyze fr s = handleAnalyze_settle fr (handleAnalyze_begin s)"

text \<open>
  \<^verbatim>\<open>handleSubmit\<close> of the form, with \<^verbatim>\<open>isLoading={view === "loading"}\<close> and
  \<^verbatim>\<open>onSubmit={handleAnalyze}\<close>.
\<close>

definition handleSubmit :: "app \<Rightarrow> app" where
  "handleSubmit s =
     (if canSubmit (form s) (view s = Loading) then handleAnalyze_begin s else s)"

section \<open>The workflow as a transition system\<close>

text \<open>
  What can happen to the page: a role button of \<^verbatim>\<open>Hero\<close>, a file given to one
  of the two dropzones, the submit button, a pending fetch settling, the back button of
  the form or the reset button of the dashboard, the toast being closed (by its button
  or its timer), the timer of the size-error banner, and the end of the exit animation
  of the form.
\<close>

datatype event =
    SelectRole role
  | SelectFile slot "js_file option"
  | Submit
  | Settle fetch_result
  | Reset
  | CloseToast
  | SizeErrorTimeout
  | FormExited

text \<open>
  An event whose control is not in the page or is disabled changes nothing.
  \<^verbatim>\<open>Hero\<close> is rendered in every view and its two \<^verbatim>\<open>RoleButton\<close>s are never
  disabled, so a role can be selected in every state. The dropzones, the submit button
  and the back button belong to the mounted form; the dropzones and the back button are
  disabled while loading (\<^verbatim>\<open>disabled={isLoading}\<close>). The reset button of the dashboard
  exists in the results view at most (the dashboard is rendered under
  \<^verbatim>\<open>view === "results" && results\<close>). A fetch settles only when one is pending.
  Where the page decides on more than the state recorded here (the dashboard fails to
  render a malformed result; a form in its exit animation keeps the props of its last
  render), the guards below allow the event.
\<close>

fun fire :: "app \<Rightarrow> event \<Rightarrow> app" where
  "fire s (SelectRole r) = mountForm (handleRoleSelect r s)"
| "fire s (SelectFile sl f) =
     (if formMounted s \<and> view s \<noteq> Loading then s\<lparr>form := handleFile sl f (form s)\<rparr>
      else s)"
| "fire s Submit = (if formMounted s then handleSubmit s else s)"
| "fire s (Settle fr) = (if 0 < pending s then mountForm (handleAnalyze_settle fr s) else s)"
| "fire s Reset =
     (if (formMounted s \<and> view s \<noteq> Loading) \<or> view s = Results then handleReset s else s)"
| "fire s CloseToast = s\<lparr>toast := None\<rparr>"
| "fire s SizeErrorTimeout =
     (if formMounted s then s\<lparr>form := (form s)\<lparr>sizeError := None\<rparr>\<rparr> else s)"
| "fire s FormExited = formExited s"



section \<open>ResultsDashboard.jsx\<close>

record score_style =
  stroke :: string
  text_class :: string
  label :: string

definition scoreColor :: "number \<Rightarrow> score_style" where
  "scoreColor pct =
     (if num_ge pct (Finite 75) then
        \<lparr>stroke = ''#34d399'', text_class = ''text-emerald-500 dark:text-emerald-400'',
         label = ''Strong Match''\<rparr>
      else if num_ge pct (Finite 50) then
        \<lparr>stroke = ''#f59e0b'', text_class = ''text-amber-500 dark:text-amber-400'',
         label = ''Moderate Match''\<rparr>
      else
        \<lparr>stroke = ''#f87171'', text_class = ''text-red-500 dark:text-red-400'',
         label = ''Weak Match''\<rparr>)"

section \<open>Concrete inputs\<close>

definition pdf_small :: js_file where
  "pdf_small = \<lparr>ftype = ''application/pdf'', fsize = 1048576, fname = ''cv.pdf''\<rparr>"

definition pdf_big :: js_file where
  "pdf_big = \<lparr>ftype = ''application/pdf'', fsize = 1048577, fname = ''scan.pdf''\<rparr>"

definition text_file :: js_file where
  "text_file = \<lparr>ftype = ''text/plain'', fsize = 12, fname = ''cv.txt''\<rparr>"







text \<open>One file chosen, nothing submitted yet.\<close>

definition one_file_state :: app where
  "one_file_state = init\<lparr>view := Upload, role := Some Applier,
                          form := fresh_form\<lparr>resumeFile := Some pdf_small\<rparr>,
                          formMounted := True\<rparr>"

text \<open>Both files chosen and the request in flight.\<close>

definition loading_state :: app where
  "loading_state = init\<lparr>view := Loading, role := Some Applier,
      form := \<lparr>resumeFile = Some pdf_small, jdFile = Some pdf_small, sizeError = None\<rparr>,
      formMounted := True, pending := 1\<rparr>"

section \<open>The file gate\<close>

text \<open>
  Claim C5. A PDF of more than 1,048,576 bytes is rejected: both slots keep what they
  held and the size-error banner is set to the text naming the 1MB limit. A PDF of at
  most 1,048,576 bytes is accepted: it becomes the file of its slot, whatever the slot
  held, and the other slot and the banner are unchanged.
\<close>

theorem handleFile_pdf:
  assumes "ftype f = ''application/pdf''"
  shows "(fsize f > 1048576 \<longrightarrow>
            slot_file sl (handleFile sl (Some f) u) = slot_file sl u
          \<and> slot_file (other sl) (handleFile sl (Some f) u) = slot_file (other sl) u
          \<and> sizeError (handleFile sl (Some f) u) =
              Some ''File is too large. Please upload a standard text-based PDF under 1MB.'')
       \<and> (fsize f \<le> 1048576 \<longrightarrow>
            slot_file sl (handleFile sl (Some f) u) = Some f
          \<and> slot_file (other sl) (handleFile sl (Some f) u) = slot_file (other sl) u
          \<and> sizeError (handleFile sl (Some f) u) = sizeError u)"
  using assms by (cases sl) (simp_all add: MAX_FILE_SIZE_def showSizeToast_def)

theorem handleFile_pdf_witness:
  "ftype pdf_big = ''application/pdf'' \<and> fsize pdf_big > 1048576
   \<and> slot_file ResumeSlot (handleFile ResumeSlot (Some pdf_big) fresh_form) = None
   \<and> sizeError (handleFile ResumeSlot (Some pdf_big) fresh_form) =
       Some ''File is too large. Please upload a standard text-based PDF under 1MB.''
   \<and> ftype pdf_small = ''application/pdf'' \<and> fsize pdf_small \<le> 1048576
   \<and> slot_file JdSlot
         (handleFile JdSlot (Some pdf_small) (fresh_form\<lparr>jdFile := Some pdf_big\<rparr>)) = Some pdf_small
   \<and> slot_file ResumeSlot
         (handleFile JdSlot (Some pdf_small) (fresh_form\<lparr>jdFile := Some pdf_big\<rparr>)) = None"
  using handleFile_pdf [of pdf_big ResumeSlot fresh_form]
        handleFile_pdf [of pdf_small JdSlot "fresh_form\<lparr>jdFile := Some pdf_big\<rparr>"]
  by (simp add: pdf_big_def pdf_small_def fresh_form_def)

text \<open>
  Claim C6. A file whose type is not exactly \<^verbatim>\<open>application/pdf\<close> leaves the form as
  it was (no slot filled, no size-error banner set), and the event of giving it to a
  dropzone leaves the whole state of the page, the toast included, as it was.
\<close>

theorem handleFile_not_pdf:
  assumes "ftype f \<noteq> ''application/pdf''"
  shows "handleFile sl (Some f) u = u \<and> fire s (SelectFile sl (Some f)) = s"
  using assms by simp

theorem handleFile_not_pdf_witness:
  "ftype text_file \<noteq> ''application/pdf''
   \<and> handleFile ResumeSlot (Some text_file) fresh_form = fresh_form
   \<and> fire (fire init (SelectRole Applier)) (SelectFile ResumeSlot (Some text_file))
       = fire init (SelectRole Applier)"
  using handleFile_not_pdf [of text_file ResumeSlot fresh_form "fire init (SelectRole Applier)"]
  by (simp add: text_file_def)

section \<open>Submitting\<close>

text \<open>
  Claim C4. In every state, \<^verbatim>\<open>canSubmit\<close> holds exactly when both slots hold a file
  and the view is not loading; and when it does not hold, \<^verbatim>\<open>handleSubmit\<close> returns
  the state it was given, so neither the view nor a stored file changes.
\<close>

theorem canSubmit_gate:
  "(canSubmit (form s) (view s = Loading)
      \<longleftrightarrow> resumeFile (form s) \<noteq> None \<and> jdFile (form s) \<noteq> None \<and> view s \<noteq> Loading)
   \<and> (\<not> canSubmit (form s) (view s = Loading) \<longrightarrow> handleSubmit s = s)"
  by (simp add: canSubmit_def handleSubmit_def)

theorem canSubmit_gate_witness:
  "\<not> canSubmit (form one_file_state) (view one_file_state = Loading)
   \<and> handleSubmit one_file_state = one_file_state
   \<and> \<not> canSubmit (form loading_state) (view loading_state = Loading)
   \<and> handleSubmit loading_state = loading_state"
  using canSubmit_gate [of one_file_state] canSubmit_gate [of loading_state]
  by (simp add: one_file_state_def loading_state_def fresh_form_def init_def)

section \<open>Reachable states\<close>













section \<open>Reset\<close>




section \<open>The colour band of a score\<close>

text \<open>
  Claim C7. For every number, \<^verbatim>\<open>scoreColor\<close> returns the green style labelled
  "Strong Match" from 75 up, the amber style labelled "Moderate Match" from 50 up to
  but not including 75, and the red style labelled "Weak Match" below 50.
\<close>

theorem scoreColor_bands:
  "(num_ge pct (Finite 75) \<longrightarrow> scoreColor pct =
      \<lparr>stroke = ''#34d399'', text_class = ''text-emerald-500 dark:text-emerald-400'',
       label = ''Strong Match''\<rparr>)
   \<and> (num_ge pct (Finite 50) \<and> num_lt pct (Finite 75) \<longrightarrow> scoreColor pct =
      \<lparr>stroke = ''#f59e0b'', text_class = ''text-amber-500 dark:text-amber-400'',
       label = ''Moderate Match''\<rparr>)
   \<and> (num_lt pct (Finite 50) \<longrightarrow> scoreColor pct =
      \<lparr>stroke = ''#f87171'', text_class = ''text-red-500 dark:text-red-400'',
       label = ''Weak Match''\<rparr>)"
  by (cases pct) (auto simp: scoreColor_def)

theorem scoreColor_bands_witness:
  "label (scoreColor (Finite 75)) = ''Strong Match''
   \<and> label (scoreColor (Finite 100)) = ''Strong Match''
   \<and> label (scoreColor (Finite 50)) = ''Moderate Match''
   \<and> label (scoreColor (Finite 74.999)) = ''Moderate Match''
   \<and> label (scoreColor (Finite 0)) = ''Weak Match''
   \<and> label (scoreColor (Finite 49.999)) = ''Weak Match''"
  using scoreColor_bands [of "Finite 75"] scoreColor_bands [of "Finite 100"]
        scoreColor_bands [of "Finite 50"] scoreColor_bands [of "Finite 74.999"]
        scoreColor_bands [of "Finite 0"] scoreColor_bands [of "Finite 49.999"]
  by simp

section \<open>Failed requests\<close>

lemma status_message_nonempty: "status_message status \<noteq> []"
  by (simp add: status_message_def)

lemma string_of_nat_500: "string_of_nat 500 = ''500''"
  by (simp add: string_of_nat.simps digit_char_def)

text \<open>
  Claim C2, as the code has it. When a response with a status from 200 to 299 has a
  body that cannot be parsed, \<^verbatim>\<open>response.json()\<close> throws inside the \<^verbatim>\<open>try\<close> block
  and the \<^verbatim>\<open>catch\<close> handles it: the outcome is the one of a fetch that was rejected,
  the view is upload again, the toast is an error toast with the could-not-reach-the-server
  text, and the stored result is untouched.
\<close>

theorem malformed_success_as_transport_failure:
  assumes "ok status"
  shows "handleAnalyze_try (Response status None) s = Inl SyntaxError
    \<and> handleAnalyze_settle (Response status None) s = handleAnalyze_settle NetworkError s
    \<and> view (handleAnalyze_settle (Response status None) s) = Upload
    \<and> toast (handleAnalyze_settle (Response status None) s) =
        Some \<lparr>message =
                JStr ''Could not reach the server. Make sure the FastAPI backend is running.'',
              type = ''error''\<rparr>
    \<and> results (handleAnalyze_settle (Response status None) s) = results s"
  using assms by (simp add: handleAnalyze_settle_def showToast_def Let_def)

theorem malformed_success_as_transport_failure_witness:
  "ok 200
   \<and> handleAnalyze_try (Response 200 None) loading_state = Inl SyntaxError
   \<and> view (handleAnalyze_settle (Response 200 None) loading_state) = Upload
   \<and> toast (handleAnalyze_settle (Response 200 None) loading_state) =
        Some \<lparr>message =
                JStr ''Could not reach the server. Make sure the FastAPI backend is running.'',
              type = ''error''\<rparr>"
proof -
  have ok: "ok 200" by (simp add: ok_def)
  from malformed_success_as_transport_failure [OF ok, of loading_state] ok
  show ?thesis by blast
qed

text \<open>
  Claim C2, as stated, fails: after a response 200 with an unparseable body the toast
  carries none of the messages of the branch for failed statuses, whatever the status.
\<close>

theorem malformed_success_message_not_service:
  "\<not> (\<exists>status. toast (handleAnalyze_settle (Response 200 None) loading_state) =
        Some \<lparr>message = JStr (status_message status), type = ''error''\<rparr>)"
  by (simp add: handleAnalyze_settle_def showToast_def Let_def ok_def status_message_def)

text \<open>
  Claim C3, as the code has it. For a status outside 200 to 299 and an error body on
  which \<^verbatim>\<open>detail\<close> can be read (any body but \<^verbatim>\<open>null\<close>; an unparseable one counts as
  the empty object), the view is upload again and the toast is an error toast: with the
  value of \<^verbatim>\<open>detail\<close> as it is when the field is there and truthy, and otherwise with
  the text for 415, the text for 422, or the server-error text with the status in it.
\<close>

theorem service_failure_message:
  assumes "\<not> ok status"
    and "get_detail (case body of None \<Rightarrow> JObj [] | Some d \<Rightarrow> d) = Inr detail"
  shows "view (handleAnalyze_settle (Response status body) s) = Upload
    \<and> (\<forall>d. detail = Some d \<and> truthy d \<longrightarrow>
          toast (handleAnalyze_settle (Response status body) s) =
            Some \<lparr>message = d, type = ''error''\<rparr>)
    \<and> (detail = None \<or> (\<exists>d. detail = Some d \<and> \<not> truthy d) \<longrightarrow>
          toast (handleAnalyze_settle (Response status body) s) =
            Some \<lparr>message = JStr
               (if status = 415 then ''Invalid file type. Please upload PDF files only.''
                else if status = 422 then
                  ''Could not read one of the PDFs. Please ensure they contain selectable text.''
                else ''Server error ('' @ string_of_nat status @ ''). Please try again.''),
              type = ''error''\<rparr>)"
  using assms
  by (auto simp: handleAnalyze_settle_def showToast_def Let_def status_message_def)

theorem service_failure_message_witness:
  "\<not> ok 422 \<and> get_detail (case None of None \<Rightarrow> JObj [] | Some d \<Rightarrow> d) = Inr None
   \<and> view (handleAnalyze_settle (Response 422 None) loading_state) = Upload
   \<and> toast (handleAnalyze_settle (Response 422 None) loading_state) =
       Some \<lparr>message = JStr
               ''Could not read one of the PDFs. Please ensure they contain selectable text.'',
             type = ''error''\<rparr>
   \<and> \<not> ok 503
   \<and> get_detail (case Some (JObj [(''detail'', JStr ''Busy'')]) of
                    None \<Rightarrow> JObj [] | Some d \<Rightarrow> d)
       = Inr (Some (JStr ''Busy''))
   \<and> toast (handleAnalyze_settle (Response 503 (Some (JObj [(''detail'', JStr ''Busy'')])))
              loading_state) =
       Some \<lparr>message = JStr ''Busy'', type = ''error''\<rparr>
   \<and> \<not> ok 500 \<and> get_detail (case Some (JObj []) of None \<Rightarrow> JObj [] | Some d \<Rightarrow> d) = Inr None
   \<and> toast (handleAnalyze_settle (Response 500 (Some (JObj []))) loading_state) =
       Some \<lparr>message = JStr ''Server error (500). Please try again.'', type = ''error''\<rparr>"
  using service_failure_message [of 422 None None loading_state]
        service_failure_message [of 503 "Some (JObj [(''detail'', JStr ''Busy'')])"
          "Some (JStr ''Busy'')" loading_state]
        service_failure_message [of 500 "Some (JObj [])" None loading_state]
  by (simp add: ok_def string_of_nat_500)

text \<open>
  Claim C3, as stated, fails: a response 422 whose body is an object with the field
  \<^verbatim>\<open>detail\<close> equal to the empty string gives the toast the text for 422, not the
  empty string.
\<close>

theorem empty_detail_not_verbatim:
  "map_of [(''detail'', JStr '''')] ''detail'' = Some (JStr '''')
   \<and> \<not> ok 422
   \<and> toast (handleAnalyze_settle (Response 422 (Some (JObj [(''detail'', JStr '''')])))
              loading_state)
       = Some \<lparr>message = JStr
                 ''Could not read one of the PDFs. Please ensure they contain selectable text.'',
               type = ''error''\<rparr>
   \<and> toast (handleAnalyze_settle (Response 422 (Some (JObj [(''detail'', JStr '''')])))
              loading_state)
       \<noteq> Some \<lparr>message = JStr '''', type = ''error''\<rparr>"
  by (simp add: handleAnalyze_settle_def showToast_def Let_def ok_def status_message_def)

text \<open>
  An error body that is the JSON text \<^verbatim>\<open>null\<close>: reading \<^verbatim>\<open>detail\<close> throws, and the
  \<^verbatim>\<open>catch\<close> shows the could-not-reach-the-server text.
\<close>

lemma null_error_body_as_transport_failure:
  "\<not> ok 500 \<and> handleAnalyze_try (Response 500 (Some JNull)) loading_state = Inl TypeError
   \<and> toast (handleAnalyze_settle (Response 500 (Some JNull)) loading_state)
     = Some \<lparr>message =
               JStr ''Could not reach the server. Make sure the FastAPI backend is running.'',
             type = ''error''\<rparr>"
  by (simp add: handleAnalyze_settle_def showToast_def Let_def ok_def)

text \<open>
  Claim C10. For a status outside 200 to 299 and an error body that is an object whose
  field \<^verbatim>\<open>detail\<close> is there but falsy (the empty string, \<^verbatim>\<open>false\<close>, 0,
  \<^verbatim>\<open>null\<close>), the toast carries the message made from the status, which is not the
  value of \<^verbatim>\<open>detail\<close>.
\<close>

theorem falsy_detail_discarded:
  assumes "\<not> ok status" and "map_of kvs ''detail'' = Some d" and "\<not> truthy d"
  shows "toast (handleAnalyze_settle (Response status (Some (JObj kvs))) s) =
           Some \<lparr>message = JStr (status_message status), type = ''error''\<rparr>
         \<and> JStr (status_message status) \<noteq> d"
  using assms status_message_nonempty [of status]
  by (auto simp: handleAnalyze_settle_def showToast_def Let_def)

theorem falsy_detail_discarded_witness:
  "\<not> ok 500 \<and> map_of [(''detail'', JStr '''')] ''detail'' = Some (JStr '''')
   \<and> \<not> truthy (JStr '''')
   \<and> toast (handleAnalyze_settle (Response 500 (Some (JObj [(''detail'', JStr '''')])))
              loading_state) =
        Some \<lparr>message = JStr ''Server error (500). Please try again.'', type = ''error''\<rparr>
   \<and> \<not> ok 415 \<and> map_of [(''detail'', JBool False)] ''detail'' = Some (JBool False)
   \<and> \<not> truthy (JBool False)
   \<and> toast (handleAnalyze_settle (Response 415 (Some (JObj [(''detail'', JBool False)])))
              loading_state) =
        Some \<lparr>message = JStr ''Invalid file type. Please upload PDF files only.'',
              type = ''error''\<rparr>"
  using falsy_detail_discarded [of 500 "[(''detail'', JStr '''')]" "JStr ''''" loading_state]
        falsy_detail_discarded [of 415 "[(''detail'', JBool False)]" "JBool False" loading_state]
  by (simp add: ok_def status_message_def string_of_nat_500)

end
